theory Spec2Isabelle
  imports Main "HOL-Library.Char_ord" "HOL-Library.List_Lexorder" "HOL-Library.Product_Lexorder"
begin

section \<open>Go runtime pieces used by the program\<close>

text \<open>
  A Go string is a sequence of bytes; it is modelled as \<open>string\<close> (a list of \<open>char\<close>).
  A run-time panic is a value of \<open>go_panic\<close>; a function that can panic returns
  \<open>go_panic + 'a\<close> with \<open>Inl\<close> for the panic.
\<close>

datatype go_panic = SliceBoundsOutOfRange | IndexOutOfRange

text \<open>The slice expressions \<open>s[:n]\<close> and \<open>s[n:]\<close>: both panic when \<open>n > len(s)\<close>.\<close>

definition slice_to :: "string \<Rightarrow> nat \<Rightarrow> go_panic + string" where
  "slice_to s n = (if n \<le> length s then Inr (take n s) else Inl SliceBoundsOutOfRange)"

definition slice_from :: "string \<Rightarrow> nat \<Rightarrow> go_panic + string" where
  "slice_from s n = (if n \<le> length s then Inr (drop n s) else Inl SliceBoundsOutOfRange)"

section \<open>main.go: initDB\<close>

text \<open>
  \<open>initDB\<close> ends in \<open>sql.Open(driver, dsn)\<close>; the model returns the pair
  \<open>(driver, dsn)\<close> handed to \<open>sql.Open\<close>, or the panic raised by a slice expression.
  The operator \<open>||\<close> evaluates its right operand only when the left one is false.
\<close>

definition initDB :: "string \<Rightarrow> go_panic + (string \<times> string)" where
  "initDB url0 =
     (let databaseURL = (if url0 = [] then ''sqlite3://linkwatch.db'' else url0) in
      case slice_to databaseURL 9 of
        Inl p \<Rightarrow> Inl p
      | Inr p9 \<Rightarrow>
          if p9 = ''sqlite3://'' then
            (case slice_from databaseURL 9 of
               Inl p \<Rightarrow> Inl p
             | Inr dsn \<Rightarrow> Inr (''sqlite3'', dsn))
          else
            (case slice_to databaseURL 11 of
               Inl p \<Rightarrow> Inl p
             | Inr p11 \<Rightarrow>
                 if p11 = ''postgres://'' then Inr (''postgres'', databaseURL)
                 else
                   (case slice_to databaseURL 13 of
                      Inl p \<Rightarrow> Inl p
                    | Inr p13 \<Rightarrow>
                        if p13 = ''postgresql://'' then Inr (''postgres'', databaseURL)
                        else Inr (''sqlite3'', databaseURL))))"

section \<open>Library functions the program calls\<close>

subsection \<open>Package strings\<close>

text \<open>
  \<open>strings.ToLower\<close> has two paths. When every byte of the text is ASCII, the 26
  capitals are mapped to their small letters and every other byte is kept. Otherwise
  the library maps each rune through its Unicode tables
  (\<open>strings.Map(unicode.ToLower, s)\<close>); the tables are not part of the program, so
  that path is the parameter \<open>unicode_lower\<close>, consulted only for a text with a byte
  outside ASCII. \<open>Cut\<close> and \<open>Split\<close> are the library functions for a one-byte
  separator, the only way the program calls them; \<open>Index\<close> finds the first
  occurrence of a text.
\<close>

definition to_lower_byte :: "char \<Rightarrow> char" where
  "to_lower_byte c =
     (case map_of (zip ''ABCDEFGHIJKLMNOPQRSTUVWXYZ'' ''abcdefghijklmnopqrstuvwxyz'') c of
        Some l \<Rightarrow> l
      | None \<Rightarrow> c)"

definition lower_ASCII :: "string \<Rightarrow> string" where
  "lower_ASCII s = map to_lower_byte s"

definition ToLower :: "(string \<Rightarrow> string) \<Rightarrow> string \<Rightarrow> string" where
  "ToLower unicode_lower s =
     (if list_all (\<lambda>c. c < CHR 0x80) s then lower_ASCII s else unicode_lower s)"

definition HasPrefix :: "string \<Rightarrow> string \<Rightarrow> bool" where
  "HasPrefix s pre = (take (length pre) s = pre)"

definition HasSuffix :: "string \<Rightarrow> string \<Rightarrow> bool" where
  "HasSuffix s suf = (length suf \<le> length s \<and> drop (length s - length suf) s = suf)"

definition TrimSuffix :: "string \<Rightarrow> string \<Rightarrow> string" where
  "TrimSuffix s suf = (if HasSuffix s suf then take (length s - length suf) s else s)"

definition Contains_byte :: "string \<Rightarrow> char \<Rightarrow> bool" where
  "Contains_byte s c = (c \<in> set s)"

definition Cut :: "string \<Rightarrow> char \<Rightarrow> string \<times> string \<times> bool" where
  "Cut s sep =
     (let front = takeWhile (\<lambda>c. c \<noteq> sep) s in
      if length front < length s then (front, drop (Suc (length front)) s, True)
      else (s, [], False))"

fun Split :: "string \<Rightarrow> char \<Rightarrow> string list" where
  "Split [] sep = [[]]"
| "Split (c # cs) sep =
     (if c = sep then [] # Split cs sep
      else (case Split cs sep of
              [] \<Rightarrow> [[c]]
            | p # ps \<Rightarrow> (c # p) # ps))"

fun Index :: "string \<Rightarrow> string \<Rightarrow> nat option" where
  "Index [] sub = (if sub = [] then Some 0 else None)"
| "Index (c # cs) sub =
     (if HasPrefix (c # cs) sub then Some 0 else map_option Suc (Index cs sub))"

subsection \<open>Package net/url\<close>

text \<open>
  \<open>url.Parse\<close> and \<open>URL.String\<close> as in the library of Go 1.22 (the program needs
  that release for its router), function by function: \<open>shouldEscape\<close>,
  \<open>unescape\<close>, \<open>escape\<close>, \<open>validEncoded\<close>, \<open>validUserinfo\<close>,
  \<open>getScheme\<close>, \<open>parseHost\<close>, \<open>parseAuthority\<close>, \<open>setPath\<close>,
  \<open>setFragment\<close>, \<open>parse\<close>, \<open>EscapedPath\<close>, \<open>EscapedFragment\<close>. A URL
  holds the decoded \<open>Path\<close> and \<open>Fragment\<close> and, when the text read is not their
  default encoding, the text read as \<open>RawPath\<close> and \<open>RawFragment\<close>. An error of
  \<open>Parse\<close> carries the text it names (the URL without its fragment, or the whole URL
  when the fragment is at fault).
\<close>

datatype encoding =
    encodePath
  | encodePathSegment
  | encodeHost
  | encodeZone
  | encodeUserPassword
  | encodeQueryComponent
  | encodeFragment

datatype url_error =
    InvalidControlCharacter
  | MissingProtocolScheme
  | FirstSegmentColon
  | InvalidPort string
  | MissingBracket
  | EscapeError string
  | InvalidHostError string
  | InvalidUserinfo

record Userinfo =
  username :: string
  password :: string
  passwordSet :: bool

record url_URL =
  Scheme :: string
  Opaque :: string
  User :: "Userinfo option"
  Host :: string
  Path :: string
  RawPath :: string
  OmitHost :: bool
  ForceQuery :: bool
  RawQuery :: string
  Fragment :: string
  RawFragment :: string

definition is_letter :: "char \<Rightarrow> bool" where
  "is_letter c = ((CHR ''a'' \<le> c \<and> c \<le> CHR ''z'') \<or> (CHR ''A'' \<le> c \<and> c \<le> CHR ''Z''))"

definition is_digit :: "char \<Rightarrow> bool" where
  "is_digit c = (CHR ''0'' \<le> c \<and> c \<le> CHR ''9'')"

definition host_marks :: string where
  "host_marks = ''!$&()*+,;=:[]<>'' @ [CHR 0x27, CHR 0x22]"

definition shouldEscape :: "char \<Rightarrow> encoding \<Rightarrow> bool" where
  "shouldEscape c mode =
     (if is_letter c \<or> is_digit c then False
      else if (mode = encodeHost \<or> mode = encodeZone) \<and> c \<in> set host_marks then False
      else if c \<in> set ''-_.~'' then False
      else if c \<in> set ''$&+,/:;=?@'' \<and> mode = encodePath then c = CHR ''?''
      else if c \<in> set ''$&+,/:;=?@'' \<and> mode = encodePathSegment then c \<in> set ''/;,?''
      else if c \<in> set ''$&+,/:;=?@'' \<and> mode = encodeUserPassword then c \<in> set ''@/?:''
      else if c \<in> set ''$&+,/:;=?@'' \<and> mode = encodeQueryComponent then True
      else if c \<in> set ''$&+,/:;=?@'' \<and> mode = encodeFragment then False
      else if mode = encodeFragment \<and> c \<in> set ''!()*'' then False
      else True)"

definition ishex :: "char \<Rightarrow> bool" where
  "ishex c =
     (is_digit c \<or> (CHR ''a'' \<le> c \<and> c \<le> CHR ''f'') \<or> (CHR ''A'' \<le> c \<and> c \<le> CHR ''F''))"

definition unhex :: "char \<Rightarrow> nat" where
  "unhex c =
     (if is_digit c then of_char c - of_char (CHR ''0'')
      else if CHR ''a'' \<le> c \<and> c \<le> CHR ''f'' then of_char c - of_char (CHR ''a'') + 10
      else if CHR ''A'' \<le> c \<and> c \<le> CHR ''F'' then of_char c - of_char (CHR ''A'') + 10
      else 0)"

definition hex_byte :: "char \<Rightarrow> char \<Rightarrow> char" where
  "hex_byte a b = char_of (unhex a * 16 + unhex b)"

fun unescape :: "string \<Rightarrow> encoding \<Rightarrow> url_error + string" where
  "unescape [] mode = Inr []"
| "unescape (c # cs) mode =
     (if c = CHR ''%'' then
        (case cs of
           a # b # rest \<Rightarrow>
             if \<not> (ishex a \<and> ishex b) then Inl (EscapeError [c, a, b])
             else if mode = encodeHost \<and> unhex a < 8 \<and> [a, b] \<noteq> ''25''
               then Inl (EscapeError [c, a, b])
             else if mode = encodeZone \<and> [a, b] \<noteq> ''25'' \<and> hex_byte a b \<noteq> CHR '' ''
                     \<and> shouldEscape (hex_byte a b) encodeHost
               then Inl (EscapeError [c, a, b])
             else (case unescape rest mode of
                     Inl e \<Rightarrow> Inl e
                   | Inr t \<Rightarrow> Inr (hex_byte a b # t))
         | _ \<Rightarrow> Inl (EscapeError (c # cs)))
      else if c = CHR ''+'' then
        (case unescape cs mode of
           Inl e \<Rightarrow> Inl e
         | Inr t \<Rightarrow> Inr ((if mode = encodeQueryComponent then CHR '' '' else c) # t))
      else if (mode = encodeHost \<or> mode = encodeZone) \<and> c < CHR 0x80 \<and> shouldEscape c encodeHost
        then Inl (InvalidHostError [c])
      else
        (case unescape cs mode of
           Inl e \<Rightarrow> Inl e
         | Inr t \<Rightarrow> Inr (c # t)))"

definition upperhex :: string where
  "upperhex = ''0123456789ABCDEF''"

definition escape_byte :: "encoding \<Rightarrow> char \<Rightarrow> string" where
  "escape_byte mode c =
     (if shouldEscape c mode then
        (if c = CHR '' '' \<and> mode = encodeQueryComponent then ''+''
         else [CHR ''%'', upperhex ! (of_char c div 16), upperhex ! (of_char c mod 16)])
      else [c])"

definition escape :: "string \<Rightarrow> encoding \<Rightarrow> string" where
  "escape s mode = concat (map (escape_byte mode) s)"

definition validEncoded :: "string \<Rightarrow> encoding \<Rightarrow> bool" where
  "validEncoded s mode =
     list_all (\<lambda>c. if c \<in> set (''!$&()*+,;=:@[]%'' @ [CHR 0x27]) then True
                    else \<not> shouldEscape c mode) s"

definition validUserinfo :: "string \<Rightarrow> bool" where
  "validUserinfo s =
     list_all (\<lambda>c. is_letter c \<or> is_digit c
                    \<or> c \<in> set (''-._:~!$&()*+,;=%@'' @ [CHR 0x27])) s"

fun scan_scheme :: "string \<Rightarrow> nat \<Rightarrow> string \<Rightarrow> url_error + (string \<times> string)" where
  "scan_scheme rawURL i [] = Inr ([], rawURL)"
| "scan_scheme rawURL i (c # cs) =
     (if is_letter c then scan_scheme rawURL (Suc i) cs
      else if is_digit c \<or> c = CHR ''+'' \<or> c = CHR ''-'' \<or> c = CHR ''.'' then
        (if i = 0 then Inr ([], rawURL) else scan_scheme rawURL (Suc i) cs)
      else if c = CHR '':'' then
        (if i = 0 then Inl MissingProtocolScheme
         else Inr (take i rawURL, drop (Suc i) rawURL))
      else Inr ([], rawURL))"

definition getScheme :: "string \<Rightarrow> url_error + (string \<times> string)" where
  "getScheme rawURL = scan_scheme rawURL 0 rawURL"

definition validOptionalPort :: "string \<Rightarrow> bool" where
  "validOptionalPort port =
     (case port of
        [] \<Rightarrow> True
      | c # ds \<Rightarrow> c = CHR '':'' \<and> list_all is_digit ds)"

definition last_index :: "string \<Rightarrow> char \<Rightarrow> nat option" where
  "last_index s c =
     (let after = takeWhile (\<lambda>d. d \<noteq> c) (rev s) in
      if length after < length s then Some (length s - Suc (length after)) else None)"

definition parseHost :: "string \<Rightarrow> url_error + string" where
  "parseHost host =
     (if HasPrefix host ''['' then
        (case last_index host (CHR '']'') of
           None \<Rightarrow> Inl MissingBracket
         | Some i \<Rightarrow>
             if \<not> validOptionalPort (drop (Suc i) host)
             then Inl (InvalidPort (drop (Suc i) host))
             else
               (case Index (take i host) ''%25'' of
                  None \<Rightarrow> unescape host encodeHost
                | Some zone \<Rightarrow>
                    (case unescape (take zone host) encodeHost of
                       Inl e \<Rightarrow> Inl e
                     | Inr host1 \<Rightarrow>
                         (case unescape (take (i - zone) (drop zone host)) encodeZone of
                            Inl e \<Rightarrow> Inl e
                          | Inr host2 \<Rightarrow>
                              (case unescape (drop i host) encodeHost of
                                 Inl e \<Rightarrow> Inl e
                               | Inr host3 \<Rightarrow> Inr (host1 @ host2 @ host3))))))
      else
        (case last_index host (CHR '':'') of
           None \<Rightarrow> unescape host encodeHost
         | Some i \<Rightarrow>
             if \<not> validOptionalPort (drop i host) then Inl (InvalidPort (drop i host))
             else unescape host encodeHost))"

definition parseUserinfo :: "string \<Rightarrow> url_error + Userinfo" where
  "parseUserinfo userinfo =
     (if \<not> validUserinfo userinfo then Inl InvalidUserinfo
      else if \<not> Contains_byte userinfo (CHR '':'') then
        (case unescape userinfo encodeUserPassword of
           Inl e \<Rightarrow> Inl e
         | Inr name \<Rightarrow> Inr \<lparr>username = name, password = [], passwordSet = False\<rparr>)
      else
        (case unescape (fst (Cut userinfo (CHR '':''))) encodeUserPassword of
           Inl e \<Rightarrow> Inl e
         | Inr name \<Rightarrow>
             (case unescape (fst (snd (Cut userinfo (CHR '':'')))) encodeUserPassword of
                Inl e \<Rightarrow> Inl e
              | Inr pass \<Rightarrow> Inr \<lparr>username = name, password = pass, passwordSet = True\<rparr>)))"

definition parseAuthority :: "string \<Rightarrow> url_error + (Userinfo option \<times> string)" where
  "parseAuthority authority =
     (case last_index authority (CHR ''@'') of
        None \<Rightarrow>
          (case parseHost authority of Inl e \<Rightarrow> Inl e | Inr h \<Rightarrow> Inr (None, h))
      | Some i \<Rightarrow>
          (case parseHost (drop (Suc i) authority) of
             Inl e \<Rightarrow> Inl e
           | Inr h \<Rightarrow>
               (case parseUserinfo (take i authority) of
                  Inl e \<Rightarrow> Inl e
                | Inr user \<Rightarrow> Inr (Some user, h))))"

definition is_ctl :: "char \<Rightarrow> bool" where
  "is_ctl c = (c < CHR '' '' \<or> c = CHR 0x7F)"

definition empty_URL :: url_URL where
  "empty_URL = \<lparr>Scheme = [], Opaque = [], User = None, Host = [], Path = [], RawPath = [],
     OmitHost = False, ForceQuery = False, RawQuery = [], Fragment = [], RawFragment = []\<rparr>"

definition setPath :: "url_URL \<Rightarrow> string \<Rightarrow> url_error + url_URL" where
  "setPath u p =
     (case unescape p encodePath of
        Inl e \<Rightarrow> Inl e
      | Inr path \<Rightarrow>
          Inr (u\<lparr>Path := path, RawPath := (if p = escape path encodePath then [] else p)\<rparr>))"

definition setFragment :: "url_URL \<Rightarrow> string \<Rightarrow> url_error + url_URL" where
  "setFragment u f =
     (case unescape f encodeFragment of
        Inl e \<Rightarrow> Inl e
      | Inr frag \<Rightarrow>
          Inr (u\<lparr>Fragment := frag,
                 RawFragment := (if f = escape frag encodeFragment then [] else f)\<rparr>))"

text \<open>
  \<open>parse\<close> lowers the scheme with \<open>strings.ToLower\<close>; a scheme accepted by
  \<open>getScheme\<close> has ASCII letters, digits, \<open>+\<close>, \<open>-\<close> and \<open>.\<close> only, so the
  ASCII path of \<open>ToLower\<close> is the one taken (lemma \<open>getScheme_lower\<close> below).
\<close>

definition parse :: "string \<Rightarrow> url_error + url_URL" where
  "parse rawURL =
     (if list_ex is_ctl rawURL then Inl InvalidControlCharacter
      else if rawURL = ''*'' then Inr (empty_URL\<lparr>Path := ''*''\<rparr>)
      else
        (case getScheme rawURL of
           Inl e \<Rightarrow> Inl e
         | Inr (scheme0, rest0) \<Rightarrow>
             let scheme = lower_ASCII scheme0;
                 force = (HasSuffix rest0 ''?'' \<and> count_list rest0 (CHR ''?'') = 1);
                 rest1 = (if force then butlast rest0 else fst (Cut rest0 (CHR ''?'')));
                 query = (if force then [] else fst (snd (Cut rest0 (CHR ''?''))));
                 url = empty_URL\<lparr>Scheme := scheme, ForceQuery := force, RawQuery := query\<rparr>
             in
               if \<not> HasPrefix rest1 ''/'' \<and> scheme \<noteq> [] then Inr (url\<lparr>Opaque := rest1\<rparr>)
               else if \<not> HasPrefix rest1 ''/'' \<and> Contains_byte (fst (Cut rest1 (CHR ''/''))) (CHR '':'')
                 then Inl FirstSegmentColon
               else if (scheme \<noteq> [] \<or> \<not> HasPrefix rest1 ''///'') \<and> HasPrefix rest1 ''//'' then
                 (let authority0 = drop 2 rest1;
                      authority = takeWhile (\<lambda>c. c \<noteq> CHR ''/'') authority0;
                      rest2 = dropWhile (\<lambda>c. c \<noteq> CHR ''/'') authority0
                  in case parseAuthority authority of
                       Inl e \<Rightarrow> Inl e
                     | Inr (user, host) \<Rightarrow> setPath (url\<lparr>User := user, Host := host\<rparr>) rest2)
               else if scheme \<noteq> [] \<and> HasPrefix rest1 ''/'' then
                 setPath (url\<lparr>OmitHost := True\<rparr>) rest1
               else setPath url rest1))"

definition url_Parse :: "string \<Rightarrow> (string \<times> url_error) + url_URL" where
  "url_Parse rawURL =
     (case Cut rawURL (CHR ''#'') of
        (u, frag, _) \<Rightarrow>
          (case parse u of
             Inl e \<Rightarrow> Inl (u, e)
           | Inr url \<Rightarrow>
               if frag = [] then Inr url
               else
                 (case setFragment url frag of
                    Inl e \<Rightarrow> Inl (rawURL, e)
                  | Inr url' \<Rightarrow> Inr url')))"

definition EscapedPath :: "url_URL \<Rightarrow> string" where
  "EscapedPath u =
     (if RawPath u \<noteq> [] \<and> validEncoded (RawPath u) encodePath
         \<and> unescape (RawPath u) encodePath = Inr (Path u)
      then RawPath u
      else if Path u = ''*'' then ''*''
      else escape (Path u) encodePath)"

definition EscapedFragment :: "url_URL \<Rightarrow> string" where
  "EscapedFragment u =
     (if RawFragment u \<noteq> [] \<and> validEncoded (RawFragment u) encodeFragment
         \<and> unescape (RawFragment u) encodeFragment = Inr (Fragment u)
      then RawFragment u
      else escape (Fragment u) encodeFragment)"

definition Userinfo_String :: "Userinfo \<Rightarrow> string" where
  "Userinfo_String ui =
     escape (username ui) encodeUserPassword
     @ (if passwordSet ui then '':'' @ escape (password ui) encodeUserPassword else [])"

definition url_String :: "url_URL \<Rightarrow> string" where
  "url_String u =
     (let s1 = (if Scheme u \<noteq> [] then Scheme u @ '':'' else []);
          s2 =
            (if Opaque u \<noteq> [] then s1 @ Opaque u
             else
               (let a =
                      (if Scheme u \<noteq> [] \<or> Host u \<noteq> [] \<or> User u \<noteq> None then
                         (if OmitHost u \<and> Host u = [] \<and> User u = None then s1
                          else
                            s1
                            @ (if Host u \<noteq> [] \<or> Path u \<noteq> [] \<or> User u \<noteq> None then ''//'' else [])
                            @ (case User u of None \<Rightarrow> [] | Some ui \<Rightarrow> Userinfo_String ui @ ''@'')
                            @ escape (Host u) encodeHost)
                       else s1);
                    path = EscapedPath u;
                    b = (if path \<noteq> [] \<and> \<not> HasPrefix path ''/'' \<and> Host u \<noteq> [] then a @ ''/'' else a);
                    c = (if b = [] \<and> Contains_byte (fst (Cut path (CHR ''/''))) (CHR '':'')
                         then ''./'' else b)
                in c @ path));
          s3 = (if ForceQuery u \<or> RawQuery u \<noteq> [] then s2 @ ''?'' @ RawQuery u else s2)
      in if Fragment u \<noteq> [] then s3 @ ''#'' @ EscapedFragment u else s3)"

section \<open>storage/database.go: CanonicalizeURL\<close>

text \<open>
  \<open>canonical_form\<close> is the body of \<open>CanonicalizeURL\<close> between the scheme check and
  the final \<open>parsed.String()\<close>: the assignments to the fields of \<open>parsed\<close>, in the
  order of the source. The first parameter is the Unicode path of \<open>strings.ToLower\<close>.
\<close>

datatype canon_error = ParseFailed string url_error | MissingScheme

definition canonical_form :: "(string \<Rightarrow> string) \<Rightarrow> url_URL \<Rightarrow> url_URL" where
  "canonical_form ul parsed0 =
     (let parsed1 = parsed0\<lparr>Scheme := ToLower ul (Scheme parsed0)\<rparr>;
          parsed2 = parsed1\<lparr>Host := ToLower ul (Host parsed1)\<rparr>;
          parsed3 =
            (if Scheme parsed2 = ''http'' then
               (if HasSuffix (Host parsed2) '':80''
                then parsed2\<lparr>Host := TrimSuffix (Host parsed2) '':80''\<rparr> else parsed2)
             else if Scheme parsed2 = ''https'' then
               (if HasSuffix (Host parsed2) '':443''
                then parsed2\<lparr>Host := TrimSuffix (Host parsed2) '':443''\<rparr> else parsed2)
             else parsed2);
          parsed4 = parsed3\<lparr>Fragment := []\<rparr>
      in if Path parsed4 \<noteq> ''/'' \<and> HasSuffix (Path parsed4) ''/''
         then parsed4\<lparr>Path := TrimSuffix (Path parsed4) ''/''\<rparr>
         else parsed4)"

definition CanonicalizeURL :: "(string \<Rightarrow> string) \<Rightarrow> string \<Rightarrow> canon_error + string" where
  "CanonicalizeURL ul rawURL =
     (case url_Parse rawURL of
        Inl (u, err) \<Rightarrow> Inl (ParseFailed u err)
      | Inr parsed \<Rightarrow>
          if Scheme parsed = [] then Inl MissingScheme
          else Inr (url_String (canonical_form ul parsed)))"


section \<open>models/models.go\<close>

text \<open>
  An instant (\<open>time.Time\<close>, always UTC here) is represented by its RFC 3339 text with
  nanoseconds, the form \<open>Format(time.RFC3339Nano)\<close> writes, for example
  \<open>2023-11-14T22:13:20.001000002Z\<close>.
\<close>

type_synonym time = string

record Target =
  ID :: string
  URL :: string
  CreatedAt :: time

record TargetList =
  Items :: "Target list"
  NextPageToken :: string

record CheckResult =
  CheckedAt :: time
  StatusCode :: "int option"
  LatencyMs :: int
  Error :: "string option"

section \<open>storage/database.go: the store\<close>

text \<open>
  The three tables of \<open>Migrate\<close>, each a list of rows in insertion order. A statement
  that violates a \<open>PRIMARY KEY\<close> or \<open>UNIQUE\<close> constraint fails with
  \<open>ConstraintFailed\<close>, \<open>QueryRow(...).Scan\<close> on no row fails with \<open>ErrNoRows\<close>,
  and a transaction that returns early is rolled back: the store is returned unchanged.
  Failures of the engine itself (\<open>Begin\<close>, \<open>Commit\<close>, I/O) are outside the model.
\<close>

record target_row =
  t_id :: string
  t_url :: string
  t_canonical_url :: string
  t_created_at :: time

record key_row =
  k_key :: string
  k_target_id :: string
  k_created_at :: time

record result_row =
  r_id :: nat
  r_target_id :: string
  r_checked_at :: time
  r_status_code :: "int option"
  r_latency_ms :: int
  r_error :: "string option"

record db =
  targets :: "target_row list"
  idempotency_keys :: "key_row list"
  check_results :: "result_row list"

definition empty_db :: db where
  "empty_db = \<lparr>targets = [], idempotency_keys = [], check_results = []\<rparr>"

datatype db_error = ErrNoRows | ConstraintFailed

text \<open>
  \<open>fmt.Sprintf("%s%d", prefix, time.Now().UnixNano())\<close>: the clock reading is a
  parameter, \<open>Itoa\<close> writes it in decimal.
\<close>

function decimal :: "int \<Rightarrow> string" where
  "decimal n =
     (if n < 10 then [''0123456789'' ! nat n]
      else decimal (n div 10) @ [''0123456789'' ! nat (n mod 10)])"
  by pat_completeness auto
termination
  by (relation "measure nat") auto

definition Itoa :: "int \<Rightarrow> string" where
  "Itoa i = (if i < 0 then CHR ''-'' # decimal (- i) else decimal i)"

definition generateID :: "string \<Rightarrow> int \<Rightarrow> string" where
  "generateID prefix unixNano = prefix @ Itoa unixNano"

definition scan_target :: "target_row \<Rightarrow> Target" where
  "scan_target r = \<lparr>ID = t_id r, URL = t_url r, CreatedAt = t_created_at r\<rparr>"

text \<open>
  \<open>CreateTarget\<close> takes the two clock readings of the source as parameters:
  \<open>unixNano\<close> (read in \<open>generateID\<close>) and \<open>now\<close>.
\<close>

definition CreateTarget ::
  "db \<Rightarrow> int \<Rightarrow> time \<Rightarrow> string \<Rightarrow> string \<Rightarrow> string option \<Rightarrow> db \<times> (db_error + Target \<times> bool)" where
  "CreateTarget s unixNano now originalURL canonicalURL idempotencyKey =
     (let targetID = generateID ''t_'' unixNano in
      case find (\<lambda>r. t_canonical_url r = canonicalURL) (targets s) of
        Some existing \<Rightarrow>
          (case idempotencyKey of
             None \<Rightarrow> (s, Inr (scan_target existing, False))
           | Some key \<Rightarrow>
               if list_ex (\<lambda>k. k_key k = key) (idempotency_keys s)
               then (s, Inr (scan_target existing, False))
               else (s\<lparr>idempotency_keys := idempotency_keys s
                        @ [\<lparr>k_key = key, k_target_id = t_id existing, k_created_at = now\<rparr>]\<rparr>,
                     Inr (scan_target existing, False)))
      | None \<Rightarrow>
          (case (case idempotencyKey of
                   None \<Rightarrow> None
                 | Some key \<Rightarrow> find (\<lambda>k. k_key k = key) (idempotency_keys s)) of
             Some recorded \<Rightarrow>
               (case find (\<lambda>r. t_id r = k_target_id recorded) (targets s) of
                  None \<Rightarrow> (s, Inl ErrNoRows)
                | Some existing \<Rightarrow> (s, Inr (scan_target existing, False)))
           | None \<Rightarrow>
               if list_ex (\<lambda>r. t_id r = targetID \<or> t_url r = originalURL) (targets s)
               then (s, Inl ConstraintFailed)
               else
                 (let s1 = s\<lparr>targets := targets s
                        @ [\<lparr>t_id = targetID, t_url = originalURL,
                            t_canonical_url = canonicalURL, t_created_at = now\<rparr>]\<rparr>;
                      s2 = (case idempotencyKey of
                              None \<Rightarrow> s1
                            | Some key \<Rightarrow>
                                s1\<lparr>idempotency_keys := idempotency_keys s1
                                  @ [\<lparr>k_key = key, k_target_id = targetID, k_created_at = now\<rparr>]\<rparr>)
                  in (s2, Inr (\<lparr>ID = targetID, URL = originalURL, CreatedAt = now\<rparr>, True)))))"

text \<open>
  The driver of SQLite stores a \<open>time.Time\<close> as text in the layout
  \<open>2006-01-02 15:04:05.999999999-07:00\<close>: for an instant in UTC this is its RFC 3339
  text with a blank in place of \<open>T\<close> and \<open>+00:00\<close> in place of \<open>Z\<close>. The
  database compares and orders the column \<open>created_at\<close> by this text, byte by byte;
  the rows of the model hold the instant, and \<open>sqlite_text\<close> gives the column's text.
\<close>

definition sqlite_text :: "time \<Rightarrow> string" where
  "sqlite_text t = take 10 t @ '' '' @ drop 11 (butlast t) @ ''+00:00''"

text \<open>
  The \<open>LIKE\<close> operator of SQLite, the engine of the tests and the default:
  \<open>%\<close> matches any sequence of bytes, \<open>_\<close> any single byte, and letters of ASCII
  match without regard to case.
\<close>

fun like :: "string \<Rightarrow> string \<Rightarrow> bool" where
  "like [] [] = True"
| "like [] (c # cs) = False"
| "like (p # ps) [] = (p = CHR ''%'' \<and> like ps [])"
| "like (p # ps) (c # cs) =
     (if p = CHR ''%'' then like ps (c # cs) \<or> like (p # ps) cs
      else (p = CHR ''_'' \<or> to_lower_byte p = to_lower_byte c) \<and> like ps cs)"

text \<open>
  \<open>LIMIT n\<close>: a negative \<open>n\<close> means no limit. The \<open>WHERE\<close> clause of
  \<open>ListTargets\<close> is the conjunction of the host clause and the cursor clause, each
  present only when the source appends it to the query; the cursor is used only when
  the token splits into exactly two parts at \<open>_\<close>, and its first part is compared,
  as text, with the column's text. The first parameter of \<open>ListTargets\<close> is the
  Unicode path of \<open>strings.ToLower\<close>. The slice \<open>targets[:limit]\<close>
  and the index \<open>targets[limit-1]\<close> panic as in Go.
\<close>

definition sql_limit :: "int \<Rightarrow> 'a list \<Rightarrow> 'a list" where
  "sql_limit n rows = (if n < 0 then rows else take (nat n) rows)"

definition host_clause :: "(string \<Rightarrow> string) \<Rightarrow> string option \<Rightarrow> target_row \<Rightarrow> bool" where
  "host_clause ul host r =
     (case host of
        None \<Rightarrow> True
      | Some h \<Rightarrow> like (''%://'' @ ToLower ul h @ ''/%'') (t_canonical_url r))"

definition cursor_clause :: "string \<Rightarrow> target_row \<Rightarrow> bool" where
  "cursor_clause pageToken r =
     (if pageToken \<noteq> [] then
        (case Split pageToken (CHR ''_'') of
           [timestamp, ident] \<Rightarrow>
             sqlite_text (t_created_at r) > timestamp
             \<or> (sqlite_text (t_created_at r) = timestamp \<and> t_id r > ident)
         | _ \<Rightarrow> True)
      else True)"

definition ListTargets ::
  "(string \<Rightarrow> string) \<Rightarrow> db \<Rightarrow> string option \<Rightarrow> int \<Rightarrow> string \<Rightarrow> go_panic + TargetList" where
  "ListTargets ul s host limit pageToken =
     (let rows = sql_limit (limit + 1)
                   (sort_key (\<lambda>r. (sqlite_text (t_created_at r), t_id r))
                      (filter (\<lambda>r. host_clause ul host r \<and> cursor_clause pageToken r)
                         (targets s)));
          targets = map scan_target rows
      in if int (length targets) > limit then
           (if limit < 0 then Inl SliceBoundsOutOfRange
            else if limit = 0 then Inl IndexOutOfRange
            else
              (let last = targets ! (nat limit - 1) in
               Inr \<lparr>Items = take (nat limit) targets,
                    NextPageToken = CreatedAt last @ ''_'' @ ID last\<rparr>))
         else Inr \<lparr>Items = targets, NextPageToken = []\<rparr>)"



section \<open>checker/checker.go\<close>

subsection \<open>Errors and the HTTP client\<close>

text \<open>
  A Go error value is modelled by its dynamic type, which \<open>isNetworkError\<close> inspects,
  and the data its \<open>Error()\<close> method prints: \<open>*net.OpError\<close>, \<open>*net.DNSError\<close>,
  \<open>*url.Error\<close> (operation, URL, cause) and the plain errors of \<open>fmt.Errorf\<close>.
  \<open>quoted\<close> is the verb \<open>%q\<close> on text that needs no escape.
\<close>

datatype go_error =
    OpError string
  | DNSError string
  | URLError string string string
  | ErrorString string

definition quoted :: "string \<Rightarrow> string" where
  "quoted s = CHR 0x22 # s @ [CHR 0x22]"

fun error_text :: "go_error \<Rightarrow> string" where
  "error_text (OpError m) = m"
| "error_text (DNSError m) = m"
| "error_text (URLError oper u m) = oper @ '' '' @ quoted u @ '': '' @ m"
| "error_text (ErrorString m) = m"

fun url_error_text :: "url_error \<Rightarrow> string" where
  "url_error_text InvalidControlCharacter = ''net/url: invalid control character in URL''"
| "url_error_text MissingProtocolScheme = ''missing protocol scheme''"
| "url_error_text FirstSegmentColon = ''first path segment in URL cannot contain colon''"
| "url_error_text (InvalidPort p) = ''invalid port '' @ quoted p @ '' after host''"
| "url_error_text MissingBracket = ''missing '' @ [CHR 0x27, CHR '']'', CHR 0x27] @ '' in host''"
| "url_error_text (EscapeError e) = ''invalid URL escape '' @ quoted e"
| "url_error_text (InvalidHostError h) = ''invalid character '' @ quoted h @ '' in host name''"
| "url_error_text InvalidUserinfo = ''net/url: invalid userinfo''"

fun isNetworkError :: "go_error \<Rightarrow> bool" where
  "isNetworkError (OpError m) = True"
| "isNetworkError (DNSError m) = True"
| "isNetworkError (URLError oper u m) = False"
| "isNetworkError (ErrorString m) = False"

text \<open>
  The \<open>CheckRedirect\<close> function of the client built in \<open>New\<close>: \<open>req\<close> is the
  upcoming request and \<open>via\<close> the requests made already, oldest first.
\<close>

definition CheckRedirect :: "string \<Rightarrow> string list \<Rightarrow> go_error option" where
  "CheckRedirect req via =
     (if length via \<ge> 5 then Some (ErrorString ''stopped after 5 redirects'') else None)"

text \<open>
  What happens to the request of one attempt is given from outside: the transport fails
  with an error, or the server answers a chain of redirects (their locations) and then
  a final status. \<open>client_Do\<close> follows the chain as \<open>http.Client\<close> does: before
  each redirect it calls \<open>CheckRedirect\<close> with the requests made so far, a refusal is
  returned as a \<open>*url.Error\<close> naming the refused location. \<open>NewRequestWithContext\<close>
  with the method \<open>GET\<close> and a context fails exactly when \<open>url.Parse\<close> fails, with
  the error of \<open>url.Parse\<close>.
\<close>

datatype exchange = Fails go_error | Answers "string list" int

fun follow :: "string list \<Rightarrow> string list \<Rightarrow> int \<Rightarrow> go_error + int" where
  "follow reqs [] code = Inr code"
| "follow reqs (loc # locs) code =
     (case CheckRedirect loc reqs of
        Some err \<Rightarrow> Inl (URLError ''Get'' loc (error_text err))
      | None \<Rightarrow> follow (reqs @ [loc]) locs code)"

definition client_Do :: "string \<Rightarrow> exchange \<Rightarrow> go_error + int" where
  "client_Do targetURL x =
     (case x of
        Fails err \<Rightarrow> Inl err
      | Answers locs code \<Rightarrow> follow [targetURL] locs code)"

definition NewRequestWithContext :: "string \<Rightarrow> go_error + url_URL" where
  "NewRequestWithContext targetURL =
     (case url_Parse targetURL of
        Inl (u, e) \<Rightarrow> Inl (URLError ''parse'' u (url_error_text e))
      | Inr u \<Rightarrow> Inr u)"

subsection \<open>performCheck\<close>

text \<open>
  The environment of one probe: \<open>ctx_done i\<close> tells whether the cancellation signal
  wins the \<open>select\<close> before attempt \<open>i\<close> (only attempts after the first wait), and
  \<open>exchange_of i\<close> is what happens to the request of attempt \<open>i\<close>. The probe records
  what it does in a trace: each backoff sleep (milliseconds), each request construction
  and each request handed to the client. \<open>attempt_body\<close> is the body of the
  \<open>for\<close> loop; it ends in \<open>continue\<close>, \<open>break\<close> or \<open>return\<close>.
\<close>

record probe_env =
  ctx_done :: "nat \<Rightarrow> bool"
  exchange_of :: "nat \<Rightarrow> exchange"

datatype event = Sleep nat | NewRequest | Do

record probe_state =
  result :: CheckResult
  lastErr :: "go_error option"
  backoff :: nat
  trace :: "event list"

datatype outcome = Continue probe_state | Break probe_state | Return probe_state

definition maxAttempts :: nat where
  "maxAttempts = 3"

definition zero_time :: time where
  "zero_time = ''0001-01-01T00:00:00Z''"

definition initial_state :: probe_state where
  "initial_state =
     \<lparr>result = \<lparr>CheckedAt = zero_time, StatusCode = None, LatencyMs = 0, Error = None\<rparr>,
      lastErr = None, backoff = 200, trace = []\<rparr>"

definition attempt_body :: "probe_env \<Rightarrow> string \<Rightarrow> nat \<Rightarrow> probe_state \<Rightarrow> outcome" where
  "attempt_body env targetURL attempt st =
     (if attempt > 0 \<and> ctx_done env attempt then
        Return (st\<lparr>result := (result st)\<lparr>Error := Some ''context cancelled''\<rparr>\<rparr>)
      else
        (let st1 = (if attempt > 0
                    then st\<lparr>trace := trace st @ [Sleep (backoff st)], backoff := 2 * backoff st\<rparr>
                    else st);
             st2 = st1\<lparr>trace := trace st1 @ [NewRequest]\<rparr>
         in case NewRequestWithContext targetURL of
              Inl err \<Rightarrow> Continue (st2\<lparr>lastErr := Some err\<rparr>)
            | Inr req \<Rightarrow>
                (let st3 = st2\<lparr>trace := trace st2 @ [Do]\<rparr> in
                 case client_Do targetURL (exchange_of env attempt) of
                   Inl err \<Rightarrow>
                     if isNetworkError err then Continue (st3\<lparr>lastErr := Some err\<rparr>)
                     else Break (st3\<lparr>lastErr := Some err\<rparr>)
                 | Inr code \<Rightarrow>
                     (let st4 = st3\<lparr>result := (result st3)\<lparr>StatusCode := Some code\<rparr>\<rparr> in
                      if code < 500 then Return st4
                      else
                        (let st5 = st4\<lparr>lastErr :=
                                     Some (ErrorString (''server error: '' @ Itoa code))\<rparr>
                         in if attempt = maxAttempts - 1 then Break st5 else Continue st5)))))"

function attempts_from :: "probe_env \<Rightarrow> string \<Rightarrow> nat \<Rightarrow> probe_state \<Rightarrow> bool \<times> probe_state" where
  "attempts_from env targetURL attempt st =
     (if attempt < maxAttempts then
        (case attempt_body env targetURL attempt st of
           Continue st' \<Rightarrow> attempts_from env targetURL (Suc attempt) st'
         | Break st' \<Rightarrow> (False, st')
         | Return st' \<Rightarrow> (True, st'))
      else (False, st))"
  by pat_completeness auto
termination
  by (relation "measure (\<lambda>(env, targetURL, attempt, st). maxAttempts - attempt)") auto

definition performCheck :: "probe_env \<Rightarrow> string \<Rightarrow> CheckResult \<times> event list" where
  "performCheck env targetURL =
     (case attempts_from env targetURL 0 initial_state of
        (True, st) \<Rightarrow> (result st, trace st)
      | (False, st) \<Rightarrow>
          (case lastErr st of
             Some err \<Rightarrow> ((result st)\<lparr>Error := Some (error_text err)\<rparr>, trace st)
           | None \<Rightarrow> (result st, trace st)))"

text \<open>
  \<open>retried env targetURL attempt\<close>: the attempt ends in \<open>continue\<close>. This is the
  case when the probe is not cancelled before it and the request cannot be constructed,
  or the transport fails with a network error, or the status is 500 or more and the
  attempt is not the last one.
\<close>

definition retried :: "probe_env \<Rightarrow> string \<Rightarrow> nat \<Rightarrow> bool" where
  "retried env targetURL attempt =
     ((attempt = 0 \<or> \<not> ctx_done env attempt) \<and>
      (case NewRequestWithContext targetURL of
         Inl err \<Rightarrow> True
       | Inr req \<Rightarrow>
           (case client_Do targetURL (exchange_of env attempt) of
              Inl err \<Rightarrow> isNetworkError err
            | Inr code \<Rightarrow> 500 \<le> code \<and> attempt \<noteq> maxAttempts - 1)))"


subsection \<open>checkTarget\<close>



section \<open>Stores of the specification's scenarios\<close>

text \<open>
  Scenario S3: the three registrations of the specification, one millisecond apart.
  Scenario S2: one registration with the idempotency key \<open>k1\<close>.
\<close>

text \<open>
  A stand-in for the Unicode path of \<open>strings.ToLower\<close> in examples whose texts are
  ASCII, where that path is not taken.
\<close>

definition no_unicode :: "string \<Rightarrow> string" where
  "no_unicode s = s"

definition s3_db :: db where
  "s3_db =
     (let s1 = fst (CreateTarget empty_db 1700000000000000001 ''2023-11-14T22:13:20.000000001Z''
                      ''https://example.com'' ''https://example.com'' None);
          s2 = fst (CreateTarget s1 1700000000001000002 ''2023-11-14T22:13:20.001000002Z''
                      ''https://test.com'' ''https://test.com'' None)
      in fst (CreateTarget s2 1700000000002000003 ''2023-11-14T22:13:20.002000003Z''
                      ''https://example.org'' ''https://example.org'' None))"



text \<open>
  Probe environments: a server that always answers the same status and no cancellation;
  scenario S5 (500, 500, 200); a server that answers 500 while the cancellation signal
  has fired; a request that fails because the context is cancelled; a server that answers five
  redirects and then 200; a server that answers 500 to the first request, the second
  request failing because the context is cancelled.
\<close>

definition env_always :: "int \<Rightarrow> probe_env" where
  "env_always code = \<lparr>ctx_done = (\<lambda>i. False), exchange_of = (\<lambda>i. Answers [] code)\<rparr>"

definition env_500_500_200 :: probe_env where
  "env_500_500_200 =
     \<lparr>ctx_done = (\<lambda>i. False),
      exchange_of = (\<lambda>i. if i < 2 then Answers [] 500 else Answers [] 200)\<rparr>"



definition env_five_redirects :: probe_env where
  "env_five_redirects =
     \<lparr>ctx_done = (\<lambda>i. False),
      exchange_of = (\<lambda>i. Answers [''http://h/1'', ''http://h/2'', ''http://h/3'',
                                    ''http://h/4'', ''http://h/5''] 200)\<rparr>"







section \<open>Results about initDB\<close>

text \<open>
  C9. The claim: for a DATABASE_URL \<open>sqlite3://path\<close>, and for the default
  \<open>sqlite3://linkwatch.db\<close> taken when the variable is unset, \<open>initDB\<close> opens the
  sqlite3 driver with the data source name \<open>path\<close>. The code compares the first 9 bytes
  with the 10-byte text \<open>sqlite3://\<close>, which never succeeds: for the default URL the
  whole URL, prefix included, is the data source name.
\<close>

theorem initDB_default_keeps_prefix:
  "initDB '''' = Inr (''sqlite3'', ''sqlite3://linkwatch.db'')
   \<and> initDB ''sqlite3://linkwatch.db'' = Inr (''sqlite3'', ''sqlite3://linkwatch.db'')
   \<and> initDB ''sqlite3://linkwatch.db'' \<noteq> Inr (''sqlite3'', ''linkwatch.db'')"
  by (simp add: initDB_def slice_to_def slice_from_def)

text \<open>
  C10. The claim: \<open>initDB\<close> returns for every non-empty DATABASE_URL, short ones
  included. The code slices before looking at the length: the 7-byte file name
  \<open>test.db\<close> panics at \<open>databaseURL[:9]\<close>, and the 12-byte \<open>linkwatch.db\<close>
  passes the first two slices and panics at \<open>databaseURL[:13]\<close>.
\<close>

theorem initDB_short_url_panics:
  "initDB ''test.db'' = Inl SliceBoundsOutOfRange
   \<and> initDB ''linkwatch.db'' = Inl SliceBoundsOutOfRange"
  by (simp add: initDB_def slice_to_def slice_from_def)

section \<open>Results about CanonicalizeURL\<close>

lemma HasSuffix_append [simp]: "HasSuffix (h @ suf) suf"
  by (simp add: HasSuffix_def)

lemma TrimSuffix_append [simp]: "TrimSuffix (h @ suf) suf = h"
  by (simp add: TrimSuffix_def)

text \<open>The scheme that \<open>getScheme\<close> returns is ASCII: \<open>ToLower\<close> takes its ASCII path.\<close>

lemma scheme_byte_ASCII:
  "is_letter c \<or> is_digit c \<or> c = CHR ''+'' \<or> c = CHR ''-'' \<or> c = CHR ''.'' \<Longrightarrow> c < CHR 0x80"
  by (auto simp add: is_letter_def is_digit_def less_char_def less_eq_char_def)

lemma scan_scheme_ASCII:
  "scan_scheme rawURL i cs = Inr (scheme, rest) \<Longrightarrow> drop i rawURL = cs \<Longrightarrow>
   list_all (\<lambda>c. c < CHR 0x80) (take i rawURL) \<Longrightarrow> list_all (\<lambda>c. c < CHR 0x80) scheme"
proof (induction rawURL i cs rule: scan_scheme.induct)
  case (1 rawURL i)
  then show ?case by simp
next
  case (2 rawURL i c cs)
  have i: "i < length rawURL"
    using "2.prems"(2) by (metis drop_eq_Nil2 list.distinct(1) not_le)
  have c: "rawURL ! i = c" and cs: "drop (Suc i) rawURL = cs"
    using "2.prems"(2) i by (metis Cons_nth_drop_Suc list.inject)+
  have step: "c < CHR 0x80 \<Longrightarrow> list_all (\<lambda>c. c < CHR 0x80) (take (Suc i) rawURL)"
    using "2.prems"(3) i c by (simp add: take_Suc_conv_app_nth)
  show ?case
  proof (cases "is_letter c")
    case True
    then show ?thesis
      using "2.IH"(1) "2.prems"(1) cs step scheme_byte_ASCII [of c] by simp
  next
    case False
    note nl = this
    show ?thesis
    proof (cases "is_digit c \<or> c = CHR ''+'' \<or> c = CHR ''-'' \<or> c = CHR ''.''")
      case True
      then show ?thesis
        using nl "2.IH"(2) "2.prems"(1) cs step scheme_byte_ASCII [of c]
        by (cases "i = 0") auto
    next
      case False
      then show ?thesis
        using nl "2.prems"(1) "2.prems"(3) by (auto split: if_splits)
    qed
  qed
qed

lemma getScheme_lower:
  "getScheme rawURL = Inr (scheme, rest) \<Longrightarrow> ToLower ul scheme = lower_ASCII scheme"
  using scan_scheme_ASCII [of rawURL 0 rawURL scheme rest]
  by (simp add: getScheme_def ToLower_def)

lemma canonical_form_Scheme: "Scheme (canonical_form ul u) = ToLower ul (Scheme u)"
  by (simp add: canonical_form_def Let_def)

lemma canonical_form_Host_http:
  "ToLower ul (Scheme u) = ''http'' \<Longrightarrow> ToLower ul (Host u) = h @ '':80'' \<Longrightarrow>
   Host (canonical_form ul u) = h"
  by (simp add: canonical_form_def Let_def)

lemma canonical_form_Host_https:
  "ToLower ul (Scheme u) = ''https'' \<Longrightarrow> ToLower ul (Host u) = h @ '':443'' \<Longrightarrow>
   Host (canonical_form ul u) = h"
  by (simp add: canonical_form_def Let_def)

lemma canonical_form_Host_other:
  "\<not> (ToLower ul (Scheme u) = ''http'' \<and> HasSuffix (ToLower ul (Host u)) '':80'') \<Longrightarrow>
   \<not> (ToLower ul (Scheme u) = ''https'' \<and> HasSuffix (ToLower ul (Host u)) '':443'') \<Longrightarrow>
   Host (canonical_form ul u) = ToLower ul (Host u)"
  by (auto simp add: canonical_form_def Let_def)

lemma canonical_form_rest:
  "Fragment (canonical_form ul u) = [] \<and> RawQuery (canonical_form ul u) = RawQuery u
   \<and> ForceQuery (canonical_form ul u) = ForceQuery u \<and> User (canonical_form ul u) = User u
   \<and> Opaque (canonical_form ul u) = Opaque u \<and> OmitHost (canonical_form ul u) = OmitHost u"
  by (simp add: canonical_form_def Let_def)

lemma canonical_form_Path:
  "Path (canonical_form ul u) =
     (if Path u \<noteq> ''/'' \<and> HasSuffix (Path u) ''/'' then TrimSuffix (Path u) ''/'' else Path u)"
  by (simp add: canonical_form_def Let_def)

lemma canonical_form_Path_root:
  "Path u = [] \<or> Path u = ''/'' \<Longrightarrow> Path (canonical_form ul u) = Path u"
  by (auto simp add: canonical_form_Path HasSuffix_def)

lemma canonical_form_Path_strip:
  "Path u = p @ ''/'' \<Longrightarrow> p \<noteq> [] \<Longrightarrow> Path (canonical_form ul u) = p"
  by (simp add: canonical_form_Path)

lemma canonical_form_Path_keep:
  "\<not> HasSuffix (Path u) ''/'' \<Longrightarrow> Path (canonical_form ul u) = Path u"
  by (simp add: canonical_form_Path)

lemma url_String_query:
  "Fragment v = [] \<Longrightarrow>
   \<exists>front. url_String v =
     front @ (if ForceQuery v \<or> RawQuery v \<noteq> [] then ''?'' @ RawQuery v else [])"
  by (simp add: url_String_def Let_def)

lemma canon_examples:
  "CanonicalizeURL ul ''https://Example.Com/path/'' = Inr ''https://example.com/path''"
  "CanonicalizeURL ul ''HTTPS://example.com/path'' = Inr ''https://example.com/path''"
  "CanonicalizeURL ul ''https://example.com:443/path'' = Inr ''https://example.com/path''"
  by code_simp+

text \<open>
  The canonical strings of URLs with escapes, with bytes that must be escaped and with
  user information, and the URLs the parser refuses.
\<close>

lemma CanonicalizeURL_escapes:
  "CanonicalizeURL ul ''https://h/%41/'' = Inr ''https://h/A''"
  "CanonicalizeURL ul ''https://h/%41'' = Inr ''https://h/%41''"
  "CanonicalizeURL ul ''https://h/a b'' = Inr ''https://h/a%20b''"
  "CanonicalizeURL ul ''https://h/a%2F'' = Inr ''https://h/a''"
  "CanonicalizeURL ul ''https://u%40x:p%3A@H:443/a/?q=%41#f'' = Inr ''https://u%40x:p%3A@h/a?q=%41''"
  "CanonicalizeURL ul ''https://exa mple.com/''
     = Inl (ParseFailed ''https://exa mple.com/'' (InvalidHostError '' ''))"
  "CanonicalizeURL ul ''https://h/a%2'' = Inl (ParseFailed ''https://h/a%2'' (EscapeError ''%2''))"
  by code_simp+

text \<open>
  C5. For every URL that \<open>url.Parse\<close> accepts, with the parsed fields \<open>u\<close> and a
  scheme, \<open>CanonicalizeURL\<close> returns the text of \<open>canonical_form u\<close>, in which:
  scheme and host are lowercased; a host ending in \<open>:80\<close> under \<open>http\<close>, or in
  \<open>:443\<close> under \<open>https\<close>, loses that port, and any other host is only lowercased;
  the fragment is empty, so the text has none; the query is the one parsed, and the
  text ends with it as it was read; an empty path and the path \<open>/\<close> are kept, a
  longer path ending in \<open>/\<close> loses that one byte, and a path not ending in \<open>/\<close>
  is kept. The three inputs of the specification have the same canonical string.
\<close>

theorem CanonicalizeURL_rules:
  assumes "url_Parse rawURL = Inr u" and "Scheme u \<noteq> []"
  shows "CanonicalizeURL ul rawURL = Inr (url_String (canonical_form ul u))
    \<and> Scheme (canonical_form ul u) = ToLower ul (Scheme u)
    \<and> (ToLower ul (Scheme u) = ''http'' \<longrightarrow> ToLower ul (Host u) = h @ '':80'' \<longrightarrow>
         Host (canonical_form ul u) = h)
    \<and> (ToLower ul (Scheme u) = ''https'' \<longrightarrow> ToLower ul (Host u) = h @ '':443'' \<longrightarrow>
         Host (canonical_form ul u) = h)
    \<and> (\<not> (ToLower ul (Scheme u) = ''http'' \<and> HasSuffix (ToLower ul (Host u)) '':80'') \<longrightarrow>
        \<not> (ToLower ul (Scheme u) = ''https'' \<and> HasSuffix (ToLower ul (Host u)) '':443'') \<longrightarrow>
         Host (canonical_form ul u) = ToLower ul (Host u))
    \<and> Fragment (canonical_form ul u) = []
    \<and> RawQuery (canonical_form ul u) = RawQuery u
    \<and> ForceQuery (canonical_form ul u) = ForceQuery u
    \<and> (\<exists>front. url_String (canonical_form ul u) =
          front @ (if ForceQuery u \<or> RawQuery u \<noteq> [] then ''?'' @ RawQuery u else []))
    \<and> (Path u = [] \<or> Path u = ''/'' \<longrightarrow> Path (canonical_form ul u) = Path u)
    \<and> (Path u = p @ ''/'' \<longrightarrow> p \<noteq> [] \<longrightarrow> Path (canonical_form ul u) = p)
    \<and> (\<not> HasSuffix (Path u) ''/'' \<longrightarrow> Path (canonical_form ul u) = Path u)
    \<and> User (canonical_form ul u) = User u
    \<and> Opaque (canonical_form ul u) = Opaque u
    \<and> CanonicalizeURL ul ''https://Example.Com/path/'' = Inr ''https://example.com/path''
    \<and> CanonicalizeURL ul ''HTTPS://example.com/path'' = Inr ''https://example.com/path''
    \<and> CanonicalizeURL ul ''https://example.com:443/path'' = Inr ''https://example.com/path''"
proof -
  have a: "CanonicalizeURL ul rawURL = Inr (url_String (canonical_form ul u))"
    using assms by (simp add: CanonicalizeURL_def)
  have f: "Fragment (canonical_form ul u) = []"
    using canonical_form_rest [of ul u] by simp
  have r: "RawQuery (canonical_form ul u) = RawQuery u"
    "ForceQuery (canonical_form ul u) = ForceQuery u"
    using canonical_form_rest [of ul u] by simp_all
  have q: "\<exists>front. url_String (canonical_form ul u) =
      front @ (if ForceQuery u \<or> RawQuery u \<noteq> [] then ''?'' @ RawQuery u else [])"
    using url_String_query [OF f] unfolding r .
  show ?thesis
    using a q canonical_form_Scheme [of ul u] canonical_form_Host_http [of ul u h]
      canonical_form_Host_https [of ul u h] canonical_form_Host_other [of ul u]
      canonical_form_rest [of ul u] canonical_form_Path_root [of u ul]
      canonical_form_Path_strip [of u p ul] canonical_form_Path_keep [of u ul] canon_examples
    by blast
qed

lemma parse_example:
  "url_Parse ''HTTPS://Example.Com:443/path/?q=1#frag'' =
     Inr \<lparr>Scheme = ''https'', Opaque = [], User = None, Host = ''Example.Com:443'',
        Path = ''/path/'', RawPath = [], OmitHost = False, ForceQuery = False,
        RawQuery = ''q=1'', Fragment = ''frag'', RawFragment = []\<rparr>"
  by code_simp

theorem CanonicalizeURL_rules_witness:
  "CanonicalizeURL no_unicode ''HTTPS://Example.Com:443/path/?q=1#frag''
     = Inr ''https://example.com/path?q=1''
   \<and> Host (canonical_form no_unicode
        \<lparr>Scheme = ''https'', Opaque = [], User = None, Host = ''Example.Com:443'',
         Path = ''/path/'', RawPath = [], OmitHost = False, ForceQuery = False,
         RawQuery = ''q=1'', Fragment = ''frag'', RawFragment = []\<rparr>) = ''example.com''
   \<and> Path (canonical_form no_unicode
        \<lparr>Scheme = ''https'', Opaque = [], User = None, Host = ''Example.Com:443'',
         Path = ''/path/'', RawPath = [], OmitHost = False, ForceQuery = False,
         RawQuery = ''q=1'', Fragment = ''frag'', RawFragment = []\<rparr>) = ''/path''"
proof -
  let ?u = "\<lparr>Scheme = ''https'', Opaque = [], User = None, Host = ''Example.Com:443'',
        Path = ''/path/'', RawPath = [], OmitHost = False, ForceQuery = False,
        RawQuery = ''q=1'', Fragment = ''frag'', RawFragment = []\<rparr>"
  have s: "Scheme ?u \<noteq> []" by simp
  have l1: "ToLower no_unicode (Scheme ?u) = ''https''"
    by (simp add: ToLower_def lower_ASCII_def to_lower_byte_def)
  have l2: "ToLower no_unicode (Host ?u) = ''example.com'' @ '':443''"
    by (simp add: ToLower_def lower_ASCII_def to_lower_byte_def)
  have l3: "Path ?u = ''/path'' @ ''/''" by simp
  have l4: "url_String (canonical_form no_unicode ?u) = ''https://example.com/path?q=1''"
    by code_simp
  show ?thesis
    using CanonicalizeURL_rules [OF parse_example s, of no_unicode "''example.com''" "''/path''"]
      l1 l2 l3 l4
    by simp
qed
section \<open>Results about CreateTarget\<close>










section \<open>Results about ListTargets\<close>

lemma length_Split: "length (Split s sep) = Suc (count_list s sep)"
  by (induction s) (auto split: list.splits)

lemma cursor_clause_generated_id:
  "cursor_clause (ts @ ''_'' @ generateID ''t_'' n) r = True"
proof -
  have "2 \<le> count_list (ts @ ''_'' @ generateID ''t_'' n) (CHR ''_'')"
    by (simp add: generateID_def)
  then have "length (Split (ts @ ''_'' @ generateID ''t_'' n) (CHR ''_'')) \<ge> 3"
    by (simp add: length_Split)
  then show ?thesis
    by (auto simp add: cursor_clause_def split: list.splits)
qed

lemma cursor_clause_empty: "cursor_clause [] r = True"
  by (simp add: cursor_clause_def)

lemma page1:
  "ListTargets ul s3_db None 2 [] =
     Inr \<lparr>Items =
        [\<lparr>ID = ''t_1700000000000000001'', URL = ''https://example.com'',
            CreatedAt = ''2023-11-14T22:13:20.000000001Z''\<rparr>,
         \<lparr>ID = ''t_1700000000001000002'', URL = ''https://test.com'',
            CreatedAt = ''2023-11-14T22:13:20.001000002Z''\<rparr>],
        NextPageToken = ''2023-11-14T22:13:20.001000002Z_t_1700000000001000002''\<rparr>"
  by code_simp

text \<open>
  C1. The claim: a call with the token of the previous page returns the targets
  strictly after the cursor, so that following tokens enumerates every target once.
  The code builds the token as timestamp, \<open>_\<close>, id, and every id made by
  \<open>generateID\<close> begins with \<open>t_\<close>: the token splits into three parts at
  \<open>_\<close>, the test for two parts fails and the cursor is dropped. So a call with any
  such token is the call without a token; in scenario S3 with limit 2 the second page
  is the first page again, with the same token, and the third target is never listed.
\<close>

theorem ListTargets_next_page_repeats_first:
  "ListTargets ul s host limit (ts @ ''_'' @ generateID ''t_'' n) = ListTargets ul s host limit []
   \<and> ListTargets ul s3_db None 2 [] =
     Inr \<lparr>Items =
        [\<lparr>ID = ''t_1700000000000000001'', URL = ''https://example.com'',
            CreatedAt = ''2023-11-14T22:13:20.000000001Z''\<rparr>,
         \<lparr>ID = ''t_1700000000001000002'', URL = ''https://test.com'',
            CreatedAt = ''2023-11-14T22:13:20.001000002Z''\<rparr>],
        NextPageToken = ''2023-11-14T22:13:20.001000002Z_t_1700000000001000002''\<rparr>
   \<and> ListTargets ul s3_db None 2 ''2023-11-14T22:13:20.001000002Z_t_1700000000001000002'' =
     Inr \<lparr>Items =
        [\<lparr>ID = ''t_1700000000000000001'', URL = ''https://example.com'',
            CreatedAt = ''2023-11-14T22:13:20.000000001Z''\<rparr>,
         \<lparr>ID = ''t_1700000000001000002'', URL = ''https://test.com'',
            CreatedAt = ''2023-11-14T22:13:20.001000002Z''\<rparr>],
        NextPageToken = ''2023-11-14T22:13:20.001000002Z_t_1700000000001000002''\<rparr>"
proof -
  have gen: "ListTargets ul s host limit (ts @ ''_'' @ generateID ''t_'' n) = ListTargets ul s host limit []"
    for ul s host limit ts n
    unfolding ListTargets_def cursor_clause_generated_id cursor_clause_empty by simp
  have tok: "''2023-11-14T22:13:20.001000002Z_t_1700000000001000002''
      = ''2023-11-14T22:13:20.001000002Z'' @ ''_'' @ generateID ''t_'' 1700000000001000002"
    by (simp add: generateID_def Itoa_def)
  have "ListTargets ul s3_db None 2 ''2023-11-14T22:13:20.001000002Z_t_1700000000001000002''
      = ListTargets ul s3_db None 2 []"
    unfolding tok by (rule gen)
  then show ?thesis
    using gen [of ul s host limit ts n] page1 by simp
qed

text \<open>
  C2. The claim: the host filter \<open>example.com\<close> returns the target registered as
  \<open>https://example.com\<close>. Its canonical URL is \<open>https://example.com\<close>, with no
  byte after the host, and the pattern of the code ends in \<open>/%\<close>: in scenario S3,
  where the unfiltered list holds the target, the filtered list is empty.
\<close>

theorem ListTargets_host_filter_misses_bare_host:
  "CanonicalizeURL ul ''https://example.com'' = Inr ''https://example.com''
   \<and> ListTargets ul s3_db None 10 [] =
     Inr \<lparr>Items =
        [\<lparr>ID = ''t_1700000000000000001'', URL = ''https://example.com'',
            CreatedAt = ''2023-11-14T22:13:20.000000001Z''\<rparr>,
         \<lparr>ID = ''t_1700000000001000002'', URL = ''https://test.com'',
            CreatedAt = ''2023-11-14T22:13:20.001000002Z''\<rparr>,
         \<lparr>ID = ''t_1700000000002000003'', URL = ''https://example.org'',
            CreatedAt = ''2023-11-14T22:13:20.002000003Z''\<rparr>],
        NextPageToken = []\<rparr>
   \<and> ListTargets ul s3_db (Some ''example.com'') 10 [] = Inr \<lparr>Items = [], NextPageToken = []\<rparr>"
proof -
  have a: "CanonicalizeURL ul ''https://example.com'' = Inr ''https://example.com''"
    by code_simp
  have b: "ListTargets ul s3_db None 10 [] =
     Inr \<lparr>Items =
        [\<lparr>ID = ''t_1700000000000000001'', URL = ''https://example.com'',
            CreatedAt = ''2023-11-14T22:13:20.000000001Z''\<rparr>,
         \<lparr>ID = ''t_1700000000001000002'', URL = ''https://test.com'',
            CreatedAt = ''2023-11-14T22:13:20.001000002Z''\<rparr>,
         \<lparr>ID = ''t_1700000000002000003'', URL = ''https://example.org'',
            CreatedAt = ''2023-11-14T22:13:20.002000003Z''\<rparr>],
        NextPageToken = []\<rparr>"
    by code_simp
  have c: "ListTargets ul s3_db (Some ''example.com'') 10 [] = Inr \<lparr>Items = [], NextPageToken = []\<rparr>"
    by code_simp
  show ?thesis using a b c by simp
qed

section \<open>Results about performCheck\<close>

declare attempts_from.simps [simp del]

lemma retried_continues:
  assumes "retried env targetURL attempt"
  shows "\<exists>st'. attempt_body env targetURL attempt st = Continue st'
           \<and> Error (result st') = Error (result st)"
  using assms
  by (cases "attempt = 0") (auto simp add: retried_def attempt_body_def Let_def split: sum.splits)

lemma retried_continues_count:
  assumes "retried env targetURL attempt" and "NewRequestWithContext targetURL = Inr req"
  shows "\<exists>st'. attempt_body env targetURL attempt st = Continue st'
           \<and> Error (result st') = Error (result st)
           \<and> count_list (trace st') Do = Suc (count_list (trace st) Do)"
  using assms
  by (cases "attempt = 0") (auto simp add: retried_def attempt_body_def Let_def split: sum.splits)

lemma response_below_500_returns:
  assumes "attempt = 0 \<or> \<not> ctx_done env attempt"
    and "NewRequestWithContext targetURL = Inr req"
    and "client_Do targetURL (exchange_of env attempt) = Inr code"
    and "code < 500"
  shows "\<exists>st'. attempt_body env targetURL attempt st = Return st'
           \<and> StatusCode (result st') = Some code
           \<and> Error (result st') = Error (result st)
           \<and> count_list (trace st') Do = Suc (count_list (trace st) Do)
           \<and> last (trace st') = Do"
  using assms by (cases "attempt = 0") (auto simp add: attempt_body_def Let_def)

lemma attempts_from_returns:
  assumes ok: "NewRequestWithContext targetURL = Inr req"
    and i: "i < maxAttempts"
    and nc: "i = 0 \<or> \<not> ctx_done env i"
    and resp: "client_Do targetURL (exchange_of env i) = Inr code" "code < 500"
  shows "j \<le> i \<Longrightarrow> (\<forall>k. j \<le> k \<and> k < i \<longrightarrow> retried env targetURL k) \<Longrightarrow>
         \<exists>st'. attempts_from env targetURL j st = (True, st')
           \<and> StatusCode (result st') = Some code
           \<and> Error (result st') = Error (result st)
           \<and> count_list (trace st') Do = count_list (trace st) Do + (Suc i - j)
           \<and> last (trace st') = Do"
proof (induction "i - j" arbitrary: j st)
  case 0
  then have ji: "j = i" by simp
  from response_below_500_returns [OF nc ok resp, of st]
  obtain st' where b: "attempt_body env targetURL i st = Return st'"
    and r: "StatusCode (result st') = Some code" "Error (result st') = Error (result st)"
      "count_list (trace st') Do = Suc (count_list (trace st) Do)" "last (trace st') = Do"
    by blast
  have "attempts_from env targetURL i st = (True, st')"
    using i b by (simp add: attempts_from.simps [of env targetURL i st])
  then show ?case using r ji by simp
next
  case (Suc d)
  then have lt: "j < i" by simp
  with Suc.prems have "retried env targetURL j" by simp
  from retried_continues_count [OF this ok, of st]
  obtain st1 where b: "attempt_body env targetURL j st = Continue st1"
    and r: "Error (result st1) = Error (result st)"
      "count_list (trace st1) Do = Suc (count_list (trace st) Do)"
    by blast
  have step: "attempts_from env targetURL j st = attempts_from env targetURL (Suc j) st1"
    using i lt b by (simp add: attempts_from.simps [of env targetURL j st])
  have d: "d = i - Suc j" using Suc.hyps(2) by simp
  have le: "Suc j \<le> i" using lt by simp
  have all: "\<forall>k. Suc j \<le> k \<and> k < i \<longrightarrow> retried env targetURL k"
    using Suc.prems(2) by simp
  from Suc.hyps(1) [OF d le all, of st1]
  obtain st' where "attempts_from env targetURL (Suc j) st1 = (True, st')"
    "StatusCode (result st') = Some code" "Error (result st') = Error (result st1)"
    "count_list (trace st') Do = count_list (trace st1) Do + (Suc i - Suc j)"
    "last (trace st') = Do"
    by blast
  then show ?case using step r lt by auto
qed

lemma performCheck_below_500:
  assumes ok: "NewRequestWithContext targetURL = Inr req"
    and i: "i < maxAttempts"
    and re: "\<forall>j<i. retried env targetURL j"
    and nc: "i = 0 \<or> \<not> ctx_done env i"
    and resp: "client_Do targetURL (exchange_of env i) = Inr code" "code < 500"
  shows "StatusCode (fst (performCheck env targetURL)) = Some code
    \<and> Error (fst (performCheck env targetURL)) = None
    \<and> count_list (snd (performCheck env targetURL)) Do = Suc i
    \<and> last (snd (performCheck env targetURL)) = Do"
proof -
  have all: "\<forall>k. 0 \<le> k \<and> k < i \<longrightarrow> retried env targetURL k"
    using re by simp
  from attempts_from_returns [OF ok i nc resp _ all, of initial_state]
  obtain st' where "attempts_from env targetURL 0 initial_state = (True, st')"
    "StatusCode (result st') = Some code" "Error (result st') = Error (result initial_state)"
    "count_list (trace st') Do = count_list (trace initial_state) Do + (Suc i - 0)"
    "last (trace st') = Do"
    by blast
  then show ?thesis
    by (simp add: performCheck_def initial_state_def)
qed

lemma performCheck_always_500:
  assumes ok: "NewRequestWithContext targetURL = Inr req"
    and srv: "\<forall>i<3. client_Do targetURL (exchange_of env i) = Inr 500"
    and nc: "\<forall>i. \<not> ctx_done env i"
  shows "performCheck env targetURL =
     (\<lparr>CheckedAt = zero_time, StatusCode = Some 500, LatencyMs = 0,
       Error = Some ''server error: 500''\<rparr>,
      [NewRequest, Do, Sleep 200, NewRequest, Do, Sleep 400, NewRequest, Do])"
proof -
  have r0: "client_Do targetURL (exchange_of env 0) = Inr 500"
    and r1: "client_Do targetURL (exchange_of env (Suc 0)) = Inr 500"
    and r2: "client_Do targetURL (exchange_of env (Suc (Suc 0))) = Inr 500"
    using srv by simp_all
  have itoa: "Itoa 500 = ''500''"
    by (simp add: Itoa_def)
  show ?thesis
    using ok nc r0 r1 r2 itoa
    by (simp add: performCheck_def initial_state_def maxAttempts_def attempt_body_def Let_def
        attempts_from.simps [of env targetURL 0]
        attempts_from.simps [of env targetURL "Suc 0"]
        attempts_from.simps [of env targetURL "Suc (Suc 0)"]
        attempts_from.simps [of env targetURL "Suc (Suc (Suc 0))"])
qed

lemma performCheck_first_404:
  assumes ok: "NewRequestWithContext targetURL = Inr req"
    and srv: "client_Do targetURL (exchange_of env 0) = Inr 404"
  shows "performCheck env targetURL =
     (\<lparr>CheckedAt = zero_time, StatusCode = Some 404, LatencyMs = 0, Error = None\<rparr>,
      [NewRequest, Do])"
  using ok srv
  by (simp add: performCheck_def initial_state_def maxAttempts_def attempt_body_def Let_def
      attempts_from.simps [of env targetURL 0])

text \<open>
  C4. Let the request be constructible. Against a server that answers 500 to every
  request, with no cancellation, \<open>performCheck\<close> hands exactly three requests to the
  client, sleeping 200 ms and 400 ms between them, and returns status 500 with the error
  \<open>server error: 500\<close>. When the first answer is 404 it hands over exactly one
  request and returns status 404 with no error. In general, when the attempts before
  attempt \<open>i\<close> were all retried and attempt \<open>i\<close> gets a status below 500, the probe
  ends with that request, after \<open>i + 1\<close> requests, and returns that status with no
  error.
\<close>

theorem performCheck_retry_policy:
  assumes "NewRequestWithContext targetURL = Inr req"
  shows "((\<forall>i<3. client_Do targetURL (exchange_of e5 i) = Inr 500) \<and> (\<forall>i. \<not> ctx_done e5 i) \<longrightarrow>
           performCheck e5 targetURL =
             (\<lparr>CheckedAt = zero_time, StatusCode = Some 500, LatencyMs = 0,
               Error = Some ''server error: 500''\<rparr>,
              [NewRequest, Do, Sleep 200, NewRequest, Do, Sleep 400, NewRequest, Do]))
    \<and> (client_Do targetURL (exchange_of e4 0) = Inr 404 \<longrightarrow>
           performCheck e4 targetURL =
             (\<lparr>CheckedAt = zero_time, StatusCode = Some 404, LatencyMs = 0, Error = None\<rparr>,
              [NewRequest, Do]))
    \<and> (i < maxAttempts \<and> (\<forall>j<i. retried env targetURL j) \<and> (i = 0 \<or> \<not> ctx_done env i)
         \<and> client_Do targetURL (exchange_of env i) = Inr code \<and> code < 500 \<longrightarrow>
           StatusCode (fst (performCheck env targetURL)) = Some code
           \<and> Error (fst (performCheck env targetURL)) = None
           \<and> count_list (snd (performCheck env targetURL)) Do = Suc i
           \<and> last (snd (performCheck env targetURL)) = Do)"
  using performCheck_always_500 [OF assms, of e5] performCheck_first_404 [OF assms, of e4]
    performCheck_below_500 [OF assms, of i env code]
  by blast

lemma example_request:
  "NewRequestWithContext ''https://example.com'' =
     Inr \<lparr>Scheme = ''https'', Opaque = [], User = None, Host = ''example.com'', Path = [],
          RawPath = [], OmitHost = False, ForceQuery = False, RawQuery = [], Fragment = [],
          RawFragment = []\<rparr>"
  by code_simp

theorem performCheck_retry_policy_witness:
  "performCheck (env_always 500) ''https://example.com'' =
     (\<lparr>CheckedAt = zero_time, StatusCode = Some 500, LatencyMs = 0,
       Error = Some ''server error: 500''\<rparr>,
      [NewRequest, Do, Sleep 200, NewRequest, Do, Sleep 400, NewRequest, Do])
   \<and> performCheck (env_always 404) ''https://example.com'' =
     (\<lparr>CheckedAt = zero_time, StatusCode = Some 404, LatencyMs = 0, Error = None\<rparr>,
      [NewRequest, Do])
   \<and> StatusCode (fst (performCheck env_500_500_200 ''https://example.com'')) = Some 200
   \<and> Error (fst (performCheck env_500_500_200 ''https://example.com'')) = None
   \<and> count_list (snd (performCheck env_500_500_200 ''https://example.com'')) Do = 3"
proof -
  have a: "\<forall>i<3. client_Do ''https://example.com'' (exchange_of (env_always 500) i) = Inr 500"
    by (simp add: env_always_def client_Do_def)
  have b: "\<forall>i. \<not> ctx_done (env_always 500) i"
    by (simp add: env_always_def)
  have c: "client_Do ''https://example.com'' (exchange_of (env_always 404) 0) = Inr 404"
    by (simp add: env_always_def client_Do_def)
  have d: "(2::nat) < maxAttempts"
    by (simp add: maxAttempts_def)
  have e: "\<forall>j<2. retried env_500_500_200 ''https://example.com'' j"
    by (simp add: retried_def env_500_500_200_def client_Do_def example_request maxAttempts_def)
  have f: "(2::nat) = 0 \<or> \<not> ctx_done env_500_500_200 2"
    by (simp add: env_500_500_200_def)
  have g: "client_Do ''https://example.com'' (exchange_of env_500_500_200 2) = Inr 200"
    by (simp add: env_500_500_200_def client_Do_def)
  show ?thesis
    using performCheck_retry_policy [OF example_request, of "env_always 500" "env_always 404"
        2 env_500_500_200 200] a b c d e f g
    by simp
qed

section \<open>Results about cancellation\<close>












section \<open>Results about the redirect limit\<close>

text \<open>
  C7. The claim: the client follows up to five redirects and refuses the sixth; the
  check permits a redirect when five or fewer requests have been made. The code refuses
  as soon as five requests have been made: the check permits a redirect exactly when
  fewer than five requests were made, so a chain of four redirects is followed and the
  fifth redirect is refused, and a probe of a URL that redirects five times before
  answering 200 ends with a redirect error and no status.
\<close>

theorem CheckRedirect_refuses_fifth_redirect:
  "(CheckRedirect req via = None) = (length via < 5)
   \<and> client_Do ''http://h/'' (Answers [''http://h/1'', ''http://h/2'', ''http://h/3'',
                                        ''http://h/4''] 200) = Inr 200
   \<and> client_Do ''http://h/'' (Answers [''http://h/1'', ''http://h/2'', ''http://h/3'',
                                        ''http://h/4'', ''http://h/5''] 200)
       = Inl (URLError ''Get'' ''http://h/5'' ''stopped after 5 redirects'')
   \<and> performCheck env_five_redirects ''http://h/'' =
       (\<lparr>CheckedAt = zero_time, StatusCode = None, LatencyMs = 0,
         Error = Some (error_text (URLError ''Get'' ''http://h/5'' ''stopped after 5 redirects''))\<rparr>,
        [NewRequest, Do])"
proof -
  have a: "(CheckRedirect req via = None) = (length via < 5)"
    by (auto simp add: CheckRedirect_def)
  have b: "client_Do ''http://h/'' (Answers [''http://h/1'', ''http://h/2'', ''http://h/3'',
                                        ''http://h/4''] 200) = Inr 200"
    by code_simp
  have c: "client_Do ''http://h/'' (Answers [''http://h/1'', ''http://h/2'', ''http://h/3'',
                                        ''http://h/4'', ''http://h/5''] 200)
       = Inl (URLError ''Get'' ''http://h/5'' ''stopped after 5 redirects'')"
    by code_simp
  have d: "performCheck env_five_redirects ''http://h/'' =
       (\<lparr>CheckedAt = zero_time, StatusCode = None, LatencyMs = 0,
         Error = Some (error_text (URLError ''Get'' ''http://h/5'' ''stopped after 5 redirects''))\<rparr>,
        [NewRequest, Do])"
    by code_simp
  show ?thesis using a b c d by simp
qed

section \<open>Results about request construction\<close>







end
